theory Spec2Isabelle
  imports Complex_Main "HOL-Library.AList"
begin

section \<open>JavaScript values\<close>

text \<open>
  The server of \<^verbatim>\<open>src/server.js\<close> keeps two process-wide objects, \<^verbatim>\<open>deviceData\<close> and
  \<^verbatim>\<open>commands\<close>, and four request handlers read and write them. The values that flow
  through the handlers are JavaScript values: what the JSON body parser produced, the
  object literals the handlers build, and what a property read on one of the two
  objects returns. A number is an IEEE double; the handlers never compute with one, they
  only ask for its type and its truthiness, so a double is a real, an infinity or NaN.
\<close>

datatype jsnum = Fin real | PosInf | NegInf | NaN

datatype jsval =
    JUndefined
  | JNull
  | JBool bool
  | JNum jsnum
  | JStr string
  | JArr "jsval list"
  | JObj "(string \<times> jsval) list"
  | JBuiltin string
  | JObjectPrototype

text \<open>
  \<open>JObj fs\<close> is an ordinary object whose prototype is \<^verbatim>\<open>Object.prototype\<close>, with own
  properties \<open>fs\<close> in insertion order. \<open>JBuiltin k\<close> is the function found under the
  name \<open>k\<close> on \<^verbatim>\<open>Object.prototype\<close>, and \<open>JObjectPrototype\<close> is that object itself.
\<close>

fun truthy :: "jsval \<Rightarrow> bool" where
  "truthy JUndefined = False"
| "truthy JNull = False"
| "truthy (JBool b) = b"
| "truthy (JNum n) = (case n of Fin r \<Rightarrow> r \<noteq> 0 | NaN \<Rightarrow> False | PosInf \<Rightarrow> True | NegInf \<Rightarrow> True)"
| "truthy (JStr s) = (s \<noteq> [])"
| "truthy (JArr xs) = True"
| "truthy (JObj fs) = True"
| "truthy (JBuiltin k) = True"
| "truthy JObjectPrototype = True"

fun typeof :: "jsval \<Rightarrow> string" where
  "typeof JUndefined = ''undefined''"
| "typeof JNull = ''object''"
| "typeof (JBool b) = ''boolean''"
| "typeof (JNum n) = ''number''"
| "typeof (JStr s) = ''string''"
| "typeof (JArr xs) = ''object''"
| "typeof (JObj fs) = ''object''"
| "typeof (JBuiltin k) = ''function''"
| "typeof JObjectPrototype = ''object''"

text \<open>
  The dotted reads of the source are \<^verbatim>\<open>data.latitude\<close>, \<^verbatim>\<open>data.longitude\<close>,
  \<^verbatim>\<open>data.rssi\<close> and \<^verbatim>\<open>command.buzzer\<close>. No built-in prototype defines one of these four
  names, so on a receiver other than \<^verbatim>\<open>null\<close> and \<^verbatim>\<open>undefined\<close> the read gives the own
  property of an ordinary object and \<^verbatim>\<open>undefined\<close> everywhere else. The read on \<^verbatim>\<open>null\<close>
  or \<^verbatim>\<open>undefined\<close> throws; the handler that can meet it has a branch for it.
\<close>

fun field :: "jsval \<Rightarrow> string \<Rightarrow> jsval" where
  "field (JObj fs) k = (case map_of fs k of Some v \<Rightarrow> v | None \<Rightarrow> JUndefined)"
| "field v k = JUndefined"

text \<open>The own enumerable properties that \<^verbatim>\<open>{...data}\<close> copies.\<close>

fun own_props :: "jsval \<Rightarrow> (string \<times> jsval) list" where
  "own_props (JObj fs) = fs"
| "own_props v = []"

section \<open>The two stores\<close>

text \<open>
  \<^verbatim>\<open>const deviceData = {}\<close> and \<^verbatim>\<open>const commands = {}\<close> are plain objects, so a read
  \<^verbatim>\<open>store[deviceId]\<close> walks the prototype chain and a write \<^verbatim>\<open>store[deviceId] = {...}\<close>
  with the key \<^verbatim>\<open>__proto__\<close> reaches the accessor of \<^verbatim>\<open>Object.prototype\<close>, which replaces
  the prototype of the store. A store is therefore its own properties together with
  its prototype: \<open>None\<close> while that is still \<^verbatim>\<open>Object.prototype\<close>, and \<open>Some fs\<close> once a
  write has installed the object \<open>JObj fs\<close>.
\<close>

record store =
  own :: "string \<rightharpoonup> jsval"
  proto :: "(string \<times> jsval) list option"

definition empty_store :: store where
  "empty_store = \<lparr> own = Map.empty, proto = None \<rparr>"

definition object_prototype_methods :: "string list" where
  "object_prototype_methods =
     [''constructor'', ''hasOwnProperty'', ''isPrototypeOf'', ''propertyIsEnumerable'',
      ''toLocaleString'', ''toString'', ''valueOf'', ''__defineGetter__'',
      ''__defineSetter__'', ''__lookupGetter__'', ''__lookupSetter__'']"

definition object_prototype_member :: "string \<Rightarrow> jsval" where
  "object_prototype_member k =
     (if k \<in> set object_prototype_methods then JBuiltin k else JUndefined)"

text \<open>
  \<^verbatim>\<open>store[k]\<close>: the own property, else the property of the installed prototype, else
  what \<^verbatim>\<open>Object.prototype\<close> has under that name. The name \<^verbatim>\<open>__proto__\<close> is an accessor
  there and returns the prototype of the store.
\<close>

definition js_get :: "store \<Rightarrow> string \<Rightarrow> jsval" where
  "js_get st k =
     (case own st k of
        Some v \<Rightarrow> v
      | None \<Rightarrow>
         (case proto st of
            None \<Rightarrow> if k = ''__proto__'' then JObjectPrototype else object_prototype_member k
          | Some fs \<Rightarrow>
             (case map_of fs k of
                Some v \<Rightarrow> v
              | None \<Rightarrow> if k = ''__proto__'' then JObj fs else object_prototype_member k)))"

text \<open>
  \<^verbatim>\<open>store[k] = {...}\<close>, where the right-hand side is always a fresh object literal with
  own properties \<open>fs\<close>. An own property is overwritten. Otherwise the chain is searched:
  a data property found there is writable, so an own property is created; only the
  accessor \<^verbatim>\<open>__proto__\<close> of \<^verbatim>\<open>Object.prototype\<close>, when nothing shadows it, runs its setter
  and installs the new object as the prototype of the store.
\<close>

definition js_set :: "store \<Rightarrow> string \<Rightarrow> (string \<times> jsval) list \<Rightarrow> store" where
  "js_set st k fs =
     (if own st k \<noteq> None then st\<lparr>own := (own st)(k \<mapsto> JObj fs)\<rparr>
      else if k = ''__proto__'' \<and>
              (case proto st of None \<Rightarrow> True | Some p \<Rightarrow> map_of p k = None)
           then st\<lparr>proto := Some fs\<rparr>
      else st\<lparr>own := (own st)(k \<mapsto> JObj fs)\<rparr>)"

record server_state =
  deviceData :: store
  commands :: store

text \<open>
  \<^verbatim>\<open>Date.now()\<close> is an input of the model: every handler that stamps a record takes the
  reading \<open>now\<close> (milliseconds, an integer) it got from the clock.
\<close>

definition stamp :: "int \<Rightarrow> jsval" where
  "stamp now = JNum (Fin (of_int now))"

definition DEFAULT_DEVICE_ID :: string where
  "DEFAULT_DEVICE_ID = ''VX0dFVvmu1QSpQdvj1p74iyfx9n1''"

text \<open>The state once the module has been evaluated: the seeded placeholder device.\<close>

definition initial_state :: "int \<Rightarrow> server_state" where
  "initial_state now =
     \<lparr> deviceData =
         js_set empty_store DEFAULT_DEVICE_ID
           [(''latitude'', JNum (Fin 14.5995)), (''longitude'', JNum (Fin 120.9842)),
            (''rssi'', JNum (Fin (- 90))), (''timestamp'', stamp now)],
       commands = empty_store \<rparr>"

section \<open>The handlers\<close>

text \<open>
  A response is the status and the value handed to \<^verbatim>\<open>res.send\<close> or \<^verbatim>\<open>res.json\<close>; both
  serialise it with \<^verbatim>\<open>JSON.stringify\<close>, which the next section models. \<open>Uncaught\<close> is an
  exception that left the handler, which Express answers with 500.
\<close>

datatype response = Reply nat jsval | Uncaught

fun status_of :: "response \<Rightarrow> nat" where
  "status_of (Reply n b) = n"
| "status_of Uncaught = 500"

text \<open>The field \<open>k\<close> of a response body, when the body is an ordinary object that has it.\<close>

fun body_field :: "response \<Rightarrow> string \<Rightarrow> jsval option" where
  "body_field (Reply n (JObj fs)) k = map_of fs k"
| "body_field r k = None"

definition isValidGpsData :: "jsval \<Rightarrow> bool" where
  "isValidGpsData data =
     (typeof (field data ''latitude'') = ''number'' \<and>
      typeof (field data ''longitude'') = ''number'' \<and>
      typeof (field data ''rssi'') \<noteq> ''undefined'')"

definition message :: "string \<Rightarrow> jsval" where
  "message m = JObj [(''message'', JStr m)]"

text \<open>
  \<^verbatim>\<open>POST /api/data/:deviceId\<close>. \<open>data\<close> is \<^verbatim>\<open>req.body\<close>. The first branch is the
  \<^verbatim>\<open>TypeError\<close> of \<^verbatim>\<open>data.latitude\<close> when no body was parsed and the framework left
  \<^verbatim>\<open>req.body\<close> undefined.
\<close>

definition post_data :: "string \<Rightarrow> jsval \<Rightarrow> int \<Rightarrow> server_state \<Rightarrow> response \<times> server_state" where
  "post_data deviceId data now s =
     (if data = JUndefined \<or> data = JNull then (Uncaught, s)
      else if \<not> isValidGpsData data
        then (Reply 400 (message ''Invalid GPS data structure.''), s)
      else (Reply 200 (message ''Data accepted.''),
            s\<lparr>deviceData :=
                js_set (deviceData s) deviceId
                  (AList.update ''timestamp'' (stamp now) (own_props data))\<rparr>))"

definition no_data_body :: jsval where
  "no_data_body =
     JObj [(''message'', JStr ''No data found for device.''),
           (''latitude'', JNull), (''longitude'', JNull)]"

text \<open>\<^verbatim>\<open>GET /api/data/:deviceId\<close>.\<close>

definition get_data :: "string \<Rightarrow> server_state \<Rightarrow> response \<times> server_state" where
  "get_data deviceId s =
     (let latestData = js_get (deviceData s) deviceId
      in if \<not> truthy latestData then (Reply 200 no_data_body, s)
         else (Reply 200 latestData, s))"

text \<open>\<^verbatim>\<open>POST /api/command/:deviceId\<close>.\<close>

definition post_command :: "string \<Rightarrow> int \<Rightarrow> server_state \<Rightarrow> response \<times> server_state" where
  "post_command deviceId now s =
     (Reply 200 (message ''Command queued.''),
      s\<lparr>commands :=
          js_set (commands s) deviceId
            [(''buzzer'', JBool True), (''timestamp'', stamp now)]\<rparr>)"

text \<open>
  \<^verbatim>\<open>GET /api/command/:deviceId\<close>. The response is sent first, from the value read; the
  reset that follows builds a new object and does not touch the one that was sent.
\<close>

definition get_command :: "string \<Rightarrow> int \<Rightarrow> server_state \<Rightarrow> response \<times> server_state" where
  "get_command deviceId now s =
     (let c = js_get (commands s) deviceId;
          command = (if truthy c then c else JObj [(''buzzer'', JBool False)])
      in (Reply 200 command,
          if truthy (field command ''buzzer'')
          then s\<lparr>commands :=
                  js_set (commands s) deviceId
                    [(''buzzer'', JBool False), (''timestamp'', stamp now)]\<rparr>
          else s))"

section \<open>What a client receives\<close>

text \<open>
  \<^verbatim>\<open>JSON.stringify\<close> on the value of a response, read back as a client parses the text.
  \<^verbatim>\<open>undefined\<close> and a function have no JSON text: at the top the body is empty (\<open>None\<close>),
  as a property they are left out, as an array element they become \<^verbatim>\<open>null\<close>. A number that
  is not finite becomes \<^verbatim>\<open>null\<close>. \<^verbatim>\<open>Object.prototype\<close> has no enumerable property. In an
  association list the first binding of a name is the property, so later bindings of a
  name already seen are skipped.
\<close>

fun to_json :: "jsval \<Rightarrow> jsval option"
  and json_elems :: "jsval list \<Rightarrow> jsval list"
  and json_fields :: "string list \<Rightarrow> (string \<times> jsval) list \<Rightarrow> (string \<times> jsval) list" where
  "to_json JUndefined = None"
| "to_json JNull = Some JNull"
| "to_json (JBool b) = Some (JBool b)"
| "to_json (JNum n) =
     Some (case n of Fin r \<Rightarrow> JNum (Fin r) | PosInf \<Rightarrow> JNull | NegInf \<Rightarrow> JNull | NaN \<Rightarrow> JNull)"
| "to_json (JStr s) = Some (JStr s)"
| "to_json (JArr xs) = Some (JArr (json_elems xs))"
| "to_json (JObj fs) = Some (JObj (json_fields [] fs))"
| "to_json (JBuiltin k) = None"
| "to_json JObjectPrototype = Some (JObj [])"
| "json_elems [] = []"
| "json_elems (x # xs) = (case to_json x of None \<Rightarrow> JNull | Some v \<Rightarrow> v) # json_elems xs"
| "json_fields seen [] = []"
| "json_fields seen ((k, v) # fs) =
     (if k \<in> set seen then json_fields seen fs
      else case to_json v of
             None \<Rightarrow> json_fields (k # seen) fs
           | Some w \<Rightarrow> (k, w) # json_fields (k # seen) fs)"

text \<open>
  The JSON body of a response as the client parses it, and its field \<open>k\<close>. The answer to
  an uncaught exception is not JSON.
\<close>

fun wire :: "response \<Rightarrow> jsval option" where
  "wire (Reply n v) = to_json v"
| "wire Uncaught = None"

definition wire_field :: "response \<Rightarrow> string \<Rightarrow> jsval option" where
  "wire_field r k = (case wire r of Some (JObj fs) \<Rightarrow> map_of fs k | _ \<Rightarrow> None)"

section \<open>Requests and traces\<close>

datatype request =
    PostData string jsval
  | GetData string
  | PostCommand string
  | GetCommand string

fun handle :: "request \<Rightarrow> int \<Rightarrow> server_state \<Rightarrow> response \<times> server_state" where
  "handle (PostData i d) now s = post_data i d now s"
| "handle (GetData i) now s = get_data i s"
| "handle (PostCommand i) now s = post_command i now s"
| "handle (GetCommand i) now s = get_command i now s"

text \<open>
  A trace is a list of requests, each with the clock reading of its handler; the
  handlers are synchronous, so the server runs them one after the other.
\<close>

fun run :: "(request \<times> int) list \<Rightarrow> server_state \<Rightarrow> server_state" where
  "run [] s = s"
| "run ((r, t) # tr) s = run tr (snd (handle r t s))"

text \<open>No \<^verbatim>\<open>POST /api/command/i\<close> in a trace; no command request for \<open>i\<close> at all.\<close>

definition no_post_command :: "string \<Rightarrow> (request \<times> int) list \<Rightarrow> bool" where
  "no_post_command i tr = list_all (\<lambda>(r, t). r \<noteq> PostCommand i) tr"

definition no_command :: "string \<Rightarrow> (request \<times> int) list \<Rightarrow> bool" where
  "no_command i tr = list_all (\<lambda>(r, t). r \<noteq> PostCommand i \<and> r \<noteq> GetCommand i) tr"

text \<open>No \<^verbatim>\<open>POST /api/data/i\<close> in a trace, whatever its body.\<close>

fun is_post_data :: "string \<Rightarrow> request \<Rightarrow> bool" where
  "is_post_data i (PostData j d) = (j = i)"
| "is_post_data i r = False"

definition no_post_data :: "string \<Rightarrow> (request \<times> int) list \<Rightarrow> bool" where
  "no_post_data i tr = list_all (\<lambda>(r, t). \<not> is_post_data i r) tr"

text \<open>A device polling: one \<^verbatim>\<open>GET /api/command/i\<close> per clock reading, the responses in order.\<close>

fun poll :: "string \<Rightarrow> int list \<Rightarrow> server_state \<Rightarrow> response list" where
  "poll i [] s = []"
| "poll i (t # ts) s = fst (get_command i t s) # poll i ts (snd (get_command i t s))"

section \<open>Notions used in the statements and proofs\<close>

text \<open>The two object literals that the command handlers store.\<close>

definition pending :: "int \<Rightarrow> (string \<times> jsval) list" where
  "pending now = [(''buzzer'', JBool True), (''timestamp'', stamp now)]"

definition cleared :: "int \<Rightarrow> (string \<times> jsval) list" where
  "cleared now = [(''buzzer'', JBool False), (''timestamp'', stamp now)]"

text \<open>
  The store keeps the record \<open>fs\<close> for the key \<open>i\<close>: as an own property, or, for the key
  \<^verbatim>\<open>__proto__\<close>, as its prototype, which then must not shadow the accessor.
\<close>

definition stores_record :: "store \<Rightarrow> string \<Rightarrow> (string \<times> jsval) list \<Rightarrow> bool" where
  "stores_record st i fs =
     (own st i = Some (JObj fs) \<or>
      (i = ''__proto__'' \<and> own st i = None \<and> proto st = Some fs \<and>
       map_of fs ''__proto__'' = None))"

text \<open>
  Shape validation as the specification words it: the body fails when latitude is not a
  number, or longitude is not a number, or rssi is absent.
\<close>

fun is_number :: "jsval \<Rightarrow> bool" where
  "is_number (JNum n) = True"
| "is_number v = False"

definition fails_shape_validation :: "jsval \<Rightarrow> bool" where
  "fails_shape_validation data =
     (\<not> is_number (field data ''latitude'') \<or>
      \<not> is_number (field data ''longitude'') \<or>
      field data ''rssi'' = JUndefined)"

text \<open>Request bodies used as concrete inputs.\<close>

definition example_body :: jsval where
  "example_body =
     JObj [(''latitude'', JNum (Fin 14.6)), (''longitude'', JNum (Fin 120.9)),
           (''rssi'', JNum (Fin (- 80)))]"

definition malformed_body :: jsval where
  "malformed_body =
     JObj [(''latitude'', JStr ''abc''), (''longitude'', JNum (Fin 1)),
           (''rssi'', JNum (Fin 1))]"

definition shadowing_body :: jsval where
  "shadowing_body =
     JObj [(''latitude'', JNum (Fin 1)), (''longitude'', JNum (Fin 2)),
           (''rssi'', JNum (Fin 3)), (''__proto__'', JNum (Fin 5))]"

definition restamped_body :: jsval where
  "restamped_body =
     JObj [(''latitude'', JNum (Fin 14.6)), (''longitude'', JNum (Fin 120.9)),
           (''rssi'', JNum (Fin (- 80))), (''timestamp'', JStr ''x'')]"

definition tagged_body :: jsval where
  "tagged_body =
     JObj [(''latitude'', JNum (Fin 14.6)), (''longitude'', JNum (Fin 120.9)),
           (''rssi'', JNum (Fin (- 80))), (''battery'', JNum (Fin 87))]"

definition overflowed_body :: jsval where
  "overflowed_body =
     JObj [(''latitude'', JNum PosInf), (''longitude'', JNum (Fin 120.9)),
           (''rssi'', JNum (Fin (- 80)))]"

text \<open>The record that the module stores for the placeholder device when it starts.\<close>

definition seed_record :: "int \<Rightarrow> (string \<times> jsval) list" where
  "seed_record now =
     [(''latitude'', JNum (Fin 14.5995)), (''longitude'', JNum (Fin 120.9842)),
      (''rssi'', JNum (Fin (- 90))), (''timestamp'', stamp now)]"

text \<open>
  Nothing was ever written for \<open>i\<close> into a store that still has \<^verbatim>\<open>Object.prototype\<close> as
  its prototype.
\<close>

definition unissued :: "store \<Rightarrow> string \<Rightarrow> bool" where
  "unissued st i = (own st i = None \<and> proto st = None)"

text \<open>
  A value that \<^verbatim>\<open>JSON.stringify\<close> and the client's parser give back as it is: built from
  \<^verbatim>\<open>null\<close>, booleans, finite numbers, strings, arrays and objects with distinct names.
\<close>

fun plain :: "jsval \<Rightarrow> bool"
  and plain_elems :: "jsval list \<Rightarrow> bool"
  and plain_fields :: "(string \<times> jsval) list \<Rightarrow> bool" where
  "plain JUndefined = False"
| "plain JNull = True"
| "plain (JBool b) = True"
| "plain (JNum n) =
     (case n of Fin r \<Rightarrow> True | PosInf \<Rightarrow> False | NegInf \<Rightarrow> False | NaN \<Rightarrow> False)"
| "plain (JStr s) = True"
| "plain (JArr xs) = plain_elems xs"
| "plain (JObj fs) = plain_fields fs"
| "plain (JBuiltin k) = False"
| "plain JObjectPrototype = False"
| "plain_elems [] = True"
| "plain_elems (x # xs) = (plain x \<and> plain_elems xs)"
| "plain_fields [] = True"
| "plain_fields ((k, v) # fs) = (k \<notin> fst ` set fs \<and> plain v \<and> plain_fields fs)"

section \<open>Reading and writing a store\<close>

lemmas store_simps = Let_def js_get_def js_set_def empty_store_def initial_state_def
  DEFAULT_DEVICE_ID_def object_prototype_member_def object_prototype_methods_def

lemma js_get_js_set:
  "k \<noteq> ''__proto__'' \<or> map_of fs ''__proto__'' = None \<Longrightarrow>
   js_get (js_set st k fs) k = JObj fs"
  by (auto simp: js_get_def js_set_def split: option.splits)

lemma js_set_twice:
  "map_of fs ''__proto__'' = None \<Longrightarrow> js_set (js_set st k fs) k gs = js_set st k gs"
  by (auto simp: js_set_def split: option.splits)

lemma js_get_unknown:
  "own st i = None \<Longrightarrow> proto st = None \<Longrightarrow> i \<noteq> ''__proto__'' \<Longrightarrow>
   i \<notin> set object_prototype_methods \<Longrightarrow> js_get st i = JUndefined"
  by (simp add: js_get_def object_prototype_member_def)

lemma stores_record_get: "stores_record st i fs \<Longrightarrow> js_get st i = JObj fs"
  by (auto simp: stores_record_def js_get_def)

lemma stores_record_set_same:
  "map_of fs ''__proto__'' = None \<Longrightarrow> stores_record (js_set st i fs) i fs"
  by (auto simp: stores_record_def js_set_def split: option.splits)

lemma stores_record_set_other:
  "j \<noteq> i \<Longrightarrow> stores_record st i fs \<Longrightarrow> stores_record (js_set st j gs) i fs"
  by (auto simp: stores_record_def js_set_def split: option.splits)

section \<open>Shape validation\<close>

lemma typeof_number: "typeof v = ''number'' \<longleftrightarrow> is_number v"
  by (cases v) simp_all

lemma typeof_undefined: "typeof v = ''undefined'' \<longleftrightarrow> v = JUndefined"
  by (cases v) simp_all

lemma valid_iff: "isValidGpsData data \<longleftrightarrow> \<not> fails_shape_validation data"
  by (auto simp: isValidGpsData_def fails_shape_validation_def typeof_number typeof_undefined)

lemma valid_is_object: "isValidGpsData data \<Longrightarrow> \<exists>fs. data = JObj fs"
  by (cases data) (simp_all add: isValidGpsData_def)

section \<open>The command flag\<close>

lemma post_command_stores: "stores_record (commands (snd (post_command i t s))) i (pending t)"
  by (simp add: post_command_def stores_record_set_same pending_def)

lemma post_command_other:
  "j \<noteq> i \<Longrightarrow> stores_record (commands s) i fs \<Longrightarrow>
   stores_record (commands (snd (post_command j t s))) i fs"
  by (simp add: post_command_def stores_record_set_other)

lemma get_command_other:
  "j \<noteq> i \<Longrightarrow> stores_record (commands s) i fs \<Longrightarrow>
   stores_record (commands (snd (get_command j t s))) i fs"
  by (simp add: get_command_def Let_def stores_record_set_other)

lemma get_command_cleared:
  assumes "stores_record (commands s) i fs" and "\<not> truthy (field (JObj fs) ''buzzer'')"
  shows "get_command i t s = (Reply 200 (JObj fs), s)"
  using assms by (simp add: get_command_def Let_def stores_record_get)

lemma get_command_pending:
  assumes "stores_record (commands s) i fs" and "truthy (field (JObj fs) ''buzzer'')"
  shows "fst (get_command i t s) = Reply 200 (JObj fs)"
    and "stores_record (commands (snd (get_command i t s))) i (cleared t)"
  using assms
  by (simp_all add: get_command_def Let_def stores_record_get stores_record_set_same cleared_def)

lemma get_command_absent:
  "\<not> truthy (js_get (commands s) i) \<Longrightarrow>
   get_command i t s = (Reply 200 (JObj [(''buzzer'', JBool False)]), s)"
  by (simp add: get_command_def)

lemma post_data_commands: "commands (snd (post_data j d t s)) = commands s"
  by (simp add: post_data_def)

lemma get_data_state: "snd (get_data j s) = s"
  by (simp add: get_data_def Let_def)

text \<open>
  A request that is not a command request for \<open>i\<close> leaves the record of \<open>i\<close> where it is;
  once the flag of that record is false, a read for \<open>i\<close> leaves it as well.
\<close>

lemma handle_keeps_record:
  assumes "r \<noteq> PostCommand i" and "r \<noteq> GetCommand i" and "stores_record (commands s) i fs"
  shows "stores_record (commands (snd (handle r t s))) i fs"
  using assms
  by (cases r) (auto simp: post_data_commands get_data_state post_command_other get_command_other)

lemma handle_keeps_cleared:
  assumes "r \<noteq> PostCommand i" and "stores_record (commands s) i fs"
    and "\<not> truthy (field (JObj fs) ''buzzer'')"
  shows "stores_record (commands (snd (handle r t s))) i fs"
proof (cases "r = GetCommand i")
  case True
  with assms show ?thesis by (simp add: get_command_cleared)
next
  case False
  with assms show ?thesis by (simp add: handle_keeps_record)
qed

lemma run_keeps_record:
  "no_command i tr \<Longrightarrow> stores_record (commands s) i fs \<Longrightarrow>
   stores_record (commands (run tr s)) i fs"
proof (induction tr arbitrary: s)
  case Nil
  then show ?case by simp
next
  case (Cons a tr)
  obtain r t where a: "a = (r, t)" by (cases a)
  from Cons.prems a have "r \<noteq> PostCommand i" "r \<noteq> GetCommand i" "no_command i tr"
    by (simp_all add: no_command_def)
  with Cons.IH Cons.prems(2) a show ?case
    by (simp add: handle_keeps_record)
qed

lemma run_keeps_cleared:
  "no_post_command i tr \<Longrightarrow> stores_record (commands s) i fs \<Longrightarrow>
   \<not> truthy (field (JObj fs) ''buzzer'') \<Longrightarrow> stores_record (commands (run tr s)) i fs"
proof (induction tr arbitrary: s)
  case Nil
  then show ?case by simp
next
  case (Cons a tr)
  obtain r t where a: "a = (r, t)" by (cases a)
  from Cons.prems a have "r \<noteq> PostCommand i" "no_post_command i tr"
    by (simp_all add: no_post_command_def)
  with Cons.IH Cons.prems(2,3) a show ?case
    by (simp add: handle_keeps_cleared)
qed

lemma poll_cleared:
  "stores_record (commands s) i fs \<Longrightarrow> \<not> truthy (field (JObj fs) ''buzzer'') \<Longrightarrow>
   poll i ts s = replicate (length ts) (Reply 200 (JObj fs))"
  by (induction ts) (simp_all add: get_command_cleared)

text \<open>
  Claim C1. For every device id and every state, after \<^verbatim>\<open>POST /api/command/i\<close> the first
  \<^verbatim>\<open>GET /api/command/i\<close> that follows answers with the buzzer flag true, that same read
  leaves the record \<^verbatim>\<open>{buzzer: false, timestamp}\<close> in the store, and a
  \<^verbatim>\<open>GET /api/command/i\<close> after it answers with the flag false. Other requests may come
  in between: before the first read any request that is not a command request for \<open>i\<close>,
  after it any request that is not a \<^verbatim>\<open>POST /api/command/i\<close>, further reads for \<open>i\<close>
  included, so the last read stands for every following one.
\<close>

theorem command_delivered_once:
  assumes "no_command i tr1" and "no_post_command i tr2"
  shows "body_field (fst (get_command i t1 (run tr1 (snd (post_command i t0 s))))) ''buzzer''
           = Some (JBool True)
       \<and> js_get (commands (snd (get_command i t1 (run tr1 (snd (post_command i t0 s)))))) i
           = JObj [(''buzzer'', JBool False), (''timestamp'', stamp t1)]
       \<and> body_field
           (fst (get_command i t2
                  (run tr2 (snd (get_command i t1 (run tr1 (snd (post_command i t0 s))))))))
           ''buzzer''
           = Some (JBool False)"
proof -
  let ?s1 = "run tr1 (snd (post_command i t0 s))"
  let ?s2 = "snd (get_command i t1 ?s1)"
  let ?s3 = "run tr2 ?s2"
  have h1: "stores_record (commands ?s1) i (pending t0)"
    using assms(1) by (rule run_keeps_record) (rule post_command_stores)
  have on: "truthy (field (JObj (pending t0)) ''buzzer'')"
    by (simp add: pending_def)
  have r1: "fst (get_command i t1 ?s1) = Reply 200 (JObj (pending t0))"
    using h1 on by (rule get_command_pending(1))
  have h2: "stores_record (commands ?s2) i (cleared t1)"
    using h1 on by (rule get_command_pending(2))
  have off: "\<not> truthy (field (JObj (cleared t1)) ''buzzer'')"
    by (simp add: cleared_def)
  have h3: "stores_record (commands ?s3) i (cleared t1)"
    using assms(2) h2 off by (rule run_keeps_cleared)
  have r3: "get_command i t2 ?s3 = (Reply 200 (JObj (cleared t1)), ?s3)"
    using h3 off by (rule get_command_cleared)
  show ?thesis
    using r1 r3 stores_record_get [OF h2] by (simp add: pending_def cleared_def)
qed

theorem command_delivered_once_witness:
  "no_command ''dev1'' [(PostData ''dev1'' example_body, 2), (GetCommand ''dev2'', 3)]
   \<and> no_post_command ''dev1'' [(GetCommand ''dev1'', 5), (PostCommand ''dev2'', 6)]
   \<and> body_field
       (fst (get_command ''dev1'' 4
              (run [(PostData ''dev1'' example_body, 2), (GetCommand ''dev2'', 3)]
                 (snd (post_command ''dev1'' 1 (initial_state 0))))))
       ''buzzer'' = Some (JBool True)
   \<and> body_field
       (fst (get_command ''dev1'' 7
              (run [(GetCommand ''dev1'', 5), (PostCommand ''dev2'', 6)]
                 (snd (get_command ''dev1'' 4
                        (run [(PostData ''dev1'' example_body, 2), (GetCommand ''dev2'', 3)]
                           (snd (post_command ''dev1'' 1 (initial_state 0)))))))))
       ''buzzer'' = Some (JBool False)"
proof -
  have a: "no_command ''dev1'' [(PostData ''dev1'' example_body, 2), (GetCommand ''dev2'', 3)]"
    by (simp add: no_command_def)
  have b: "no_post_command ''dev1'' [(GetCommand ''dev1'', 5), (PostCommand ''dev2'', 6)]"
    by (simp add: no_post_command_def)
  from command_delivered_once [OF a b, of 4 1 "initial_state 0" 7] a b show ?thesis
    by blast
qed

text \<open>
  Claim C5. Issuing is idempotent while pending. For every device id and every state,
  two \<^verbatim>\<open>POST /api/command/i\<close> in a row leave the state that the second one alone would
  have left (the two differ from a single issuance only in the timestamp, which is the
  later one), and the reads that follow observe the flag true exactly once, at the
  first read, and false at every later read.
\<close>

theorem issue_twice_is_issue_once:
  "snd (post_command i t2 (snd (post_command i t1 s))) = snd (post_command i t2 s)
   \<and> map (\<lambda>r. body_field r ''buzzer'')
       (poll i (t # ts) (snd (post_command i t2 (snd (post_command i t1 s)))))
     = Some (JBool True) # replicate (length ts) (Some (JBool False))"
proof -
  let ?s = "snd (post_command i t2 (snd (post_command i t1 s)))"
  have eq: "?s = snd (post_command i t2 s)"
    by (simp add: post_command_def js_set_twice)
  have h: "stores_record (commands ?s) i (pending t2)"
    by (rule post_command_stores)
  have on: "truthy (field (JObj (pending t2)) ''buzzer'')"
    by (simp add: pending_def)
  have r1: "fst (get_command i t ?s) = Reply 200 (JObj (pending t2))"
    using h on by (rule get_command_pending(1))
  have h2: "stores_record (commands (snd (get_command i t ?s))) i (cleared t)"
    using h on by (rule get_command_pending(2))
  have off: "\<not> truthy (field (JObj (cleared t)) ''buzzer'')"
    by (simp add: cleared_def)
  have rest: "poll i ts (snd (get_command i t ?s))
              = replicate (length ts) (Reply 200 (JObj (cleared t)))"
    using h2 off by (rule poll_cleared)
  have "map (\<lambda>r. body_field r ''buzzer'') (poll i (t # ts) ?s)
        = Some (JBool True) # replicate (length ts) (Some (JBool False))"
    using r1 rest by (simp add: pending_def cleared_def)
  with eq show ?thesis by blast
qed

section \<open>Serialisation\<close>

lemma map_of_json_fields:
  "map_of (json_fields seen fs) k
   = (if k \<in> set seen then None else Option.bind (map_of fs k) to_json)"
proof (induction fs arbitrary: seen)
  case Nil
  then show ?case by simp
next
  case (Cons a fs)
  obtain j v where a: "a = (j, v)" by (cases a)
  show ?case
    using Cons.IH [of seen] Cons.IH [of "j # seen"] a
    by (cases "to_json v") auto
qed

lemma wire_field_obj:
  "wire_field (Reply n (JObj fs)) k = Option.bind (map_of fs k) to_json"
  by (simp add: wire_field_def map_of_json_fields)

text \<open>A plain value comes back as it is.\<close>

lemma plain_to_json:
  "plain v \<longrightarrow> to_json v = Some v"
  "plain_elems xs \<longrightarrow> json_elems xs = xs"
  "plain_fields fs \<longrightarrow> set seen \<inter> fst ` set fs = {} \<longrightarrow> json_fields seen fs = fs"
proof (induction v and xs and seen fs rule: to_json_json_elems_json_fields.induct)
  case (4 n)
  then show ?case by (cases n) simp_all
next
  case (13 seen k v fs)
  then show ?case by (cases "to_json v") auto
qed simp_all

lemma to_json_number: "is_number v \<Longrightarrow> to_json v \<noteq> None"
  by (cases v) simp_all

lemma to_json_stamp: "to_json (stamp t) = Some (stamp t)"
  by (simp add: stamp_def)

section \<open>Telemetry\<close>

lemma get_data_absent:
  "\<not> truthy (js_get (deviceData s) i) \<Longrightarrow> get_data i s = (Reply 200 no_data_body, s)"
  by (simp add: get_data_def)

text \<open>
  A device id that is no own property of a store whose prototype was never replaced,
  and that names nothing on \<^verbatim>\<open>Object.prototype\<close>, gets the two default answers.
\<close>

lemma get_data_unknown:
  assumes "own (deviceData s) i = None" and "proto (deviceData s) = None"
    and "i \<noteq> ''__proto__''" and "i \<notin> set object_prototype_methods"
  shows "get_data i s = (Reply 200 no_data_body, s)"
  using assms by (simp add: get_data_absent js_get_unknown)

lemma get_command_unknown:
  assumes "own (commands s) i = None" and "proto (commands s) = None"
    and "i \<noteq> ''__proto__''" and "i \<notin> set object_prototype_methods"
  shows "get_command i t s = (Reply 200 (JObj [(''buzzer'', JBool False)]), s)"
  using assms by (simp add: get_command_absent js_get_unknown)

text \<open>
  A valid report for an id other than \<^verbatim>\<open>__proto__\<close> becomes an own property of the store,
  and no request other than a report for the same id touches it.
\<close>

lemma post_data_stores:
  assumes "isValidGpsData data" and "i \<noteq> ''__proto__''"
  shows "stores_record (deviceData (snd (post_data i data now s))) i
           (AList.update ''timestamp'' (stamp now) (own_props data))"
proof -
  from assms(1) obtain fs where "data = JObj fs" by (auto dest: valid_is_object)
  with assms show ?thesis
    by (auto simp: post_data_def stores_record_def js_set_def)
qed

lemma post_data_other:
  "j \<noteq> i \<Longrightarrow> stores_record (deviceData s) i fs \<Longrightarrow>
   stores_record (deviceData (snd (post_data j d t s))) i fs"
  by (simp add: post_data_def stores_record_set_other)

lemma post_command_deviceData: "deviceData (snd (post_command j t s)) = deviceData s"
  by (simp add: post_command_def)

lemma get_command_deviceData: "deviceData (snd (get_command j t s)) = deviceData s"
  by (simp add: get_command_def Let_def)

lemma handle_keeps_telemetry:
  assumes "\<not> is_post_data i r" and "stores_record (deviceData s) i fs"
  shows "stores_record (deviceData (snd (handle r t s))) i fs"
  using assms
  by (cases r)
     (auto simp: post_data_other get_data_state post_command_deviceData get_command_deviceData)

lemma run_keeps_telemetry:
  "no_post_data i tr \<Longrightarrow> stores_record (deviceData s) i fs \<Longrightarrow>
   stores_record (deviceData (run tr s)) i fs"
proof (induction tr arbitrary: s)
  case Nil
  then show ?case by simp
next
  case (Cons a tr)
  obtain r t where a: "a = (r, t)" by (cases a)
  from Cons.prems a have "\<not> is_post_data i r" "no_post_data i tr"
    by (simp_all add: no_post_data_def)
  with Cons.IH Cons.prems(2) a show ?case
    by (simp add: handle_keeps_telemetry)
qed

lemma get_data_stored:
  "stores_record (deviceData s) i fs \<Longrightarrow> get_data i s = (Reply 200 (JObj fs), s)"
  by (simp add: get_data_def Let_def stores_record_get)

lemma initial_state_seed:
  "stores_record (deviceData (initial_state t0)) DEFAULT_DEVICE_ID (seed_record t0)"
  by (simp add: initial_state_def stores_record_def js_set_def empty_store_def seed_record_def)

lemma get_after_post:
  assumes "isValidGpsData data" and "i \<noteq> ''__proto__''" and "no_post_data i tr"
  shows "get_data i (run tr (snd (post_data i data now s)))
         = (Reply 200 (JObj (AList.update ''timestamp'' (stamp now) (own_props data))),
            run tr (snd (post_data i data now s)))"
  using assms by (intro get_data_stored run_keeps_telemetry post_data_stores)

lemma get_seed:
  assumes "no_post_data DEFAULT_DEVICE_ID tr"
  shows "get_data DEFAULT_DEVICE_ID (run tr (initial_state t0))
         = (Reply 200 (JObj (seed_record t0)), run tr (initial_state t0))"
  using assms by (intro get_data_stored run_keeps_telemetry initial_state_seed)

text \<open>
  Claim C2. A \<^verbatim>\<open>GET /api/data/i\<close> after a \<^verbatim>\<open>POST /api/data/i\<close> with a valid body should
  return the posted latitude, longitude and rssi. For every id other than \<^verbatim>\<open>__proto__\<close>
  the code hands the stored record, with the posted fields, to \<^verbatim>\<open>res.json\<close>
  (\<open>get_after_post\<close>). For that id it does not: the write
  \<^verbatim>\<open>deviceData['__proto__'] = {...data, timestamp}\<close> replaces the prototype of the store,
  and when the valid body has a field of that name the copy of it shadows the accessor,
  so the read returns the value of that field, here the number 5, in place of the
  record.
\<close>

theorem telemetry_round_trip_fails_on_proto:
  "isValidGpsData shadowing_body
   \<and> fst (post_data ''__proto__'' shadowing_body 1000 (initial_state 0))
       = Reply 200 (message ''Data accepted.'')
   \<and> fst (get_data ''__proto__''
            (snd (post_data ''__proto__'' shadowing_body 1000 (initial_state 0))))
       = Reply 200 (JNum (Fin 5))
   \<and> body_field
       (fst (get_data ''__proto__''
              (snd (post_data ''__proto__'' shadowing_body 1000 (initial_state 0)))))
       ''latitude'' = None"
  by (simp add: shadowing_body_def isValidGpsData_def post_data_def get_data_def store_simps)

text \<open>
  The status of \<^verbatim>\<open>POST /api/data/i\<close> when the handler is given a body (anything but
  \<^verbatim>\<open>undefined\<close> and \<^verbatim>\<open>null\<close>): 400 exactly when the body fails shape validation (latitude
  not a number, or longitude not a number, or rssi absent), 200 exactly when it passes;
  on 400 the state, and with it the telemetry store, is the one before the request.
  The body \<^verbatim>\<open>{"latitude":"abc","longitude":1,"rssi":1}\<close> yields 400 and the example report
  yields 200.
\<close>

lemma post_data_status:
  assumes "data \<noteq> JUndefined" and "data \<noteq> JNull"
  shows "(status_of (fst (post_data i data now s)) = 400 \<longleftrightarrow> fails_shape_validation data)
       \<and> (status_of (fst (post_data i data now s)) = 200 \<longleftrightarrow> \<not> fails_shape_validation data)
       \<and> (status_of (fst (post_data i data now s)) = 400 \<longrightarrow> snd (post_data i data now s) = s)"
  using assms by (simp add: post_data_def valid_iff)

lemma post_data_status_examples:
  "fails_shape_validation malformed_body
   \<and> status_of (fst (post_data ''dev1'' malformed_body 1000 (initial_state 0))) = 400
   \<and> snd (post_data ''dev1'' malformed_body 1000 (initial_state 0)) = initial_state 0
   \<and> \<not> fails_shape_validation example_body
   \<and> status_of (fst (post_data ''dev1'' example_body 1000 (initial_state 0))) = 200"
proof -
  have a: "malformed_body \<noteq> JUndefined" and b: "malformed_body \<noteq> JNull"
    by (simp_all add: malformed_body_def)
  have c: "example_body \<noteq> JUndefined" and d: "example_body \<noteq> JNull"
    by (simp_all add: example_body_def)
  have f: "fails_shape_validation malformed_body"
    by (simp add: malformed_body_def fails_shape_validation_def)
  have g: "\<not> fails_shape_validation example_body"
    by (simp add: example_body_def fails_shape_validation_def)
  from post_data_status [OF a b, of "''dev1''" 1000 "initial_state 0"]
    post_data_status [OF c d, of "''dev1''" 1000 "initial_state 0"] f g
  show ?thesis by simp
qed

text \<open>
  Claim C3. \<^verbatim>\<open>POST /api/data/i\<close> should answer 400 whenever the body fails shape
  validation. A request without a parsed body reaches the handler with \<^verbatim>\<open>req.body\<close>
  undefined: latitude is not a number, longitude is not a number and rssi is absent,
  yet the read \<^verbatim>\<open>data.latitude\<close> in \<^verbatim>\<open>isValidGpsData\<close> throws before the 400 branch, so
  the answer is 500 and not 400. The state is left as it was. For every body that is
  present the handler does answer 400 or 200 as claimed (\<open>post_data_status\<close>).
\<close>

theorem post_data_absent_body_uncaught:
  "\<not> is_number (field JUndefined ''latitude'')
   \<and> \<not> is_number (field JUndefined ''longitude'')
   \<and> field JUndefined ''rssi'' = JUndefined
   \<and> \<not> isValidGpsData JUndefined
   \<and> post_data ''dev1'' JUndefined 1000 (initial_state 0) = (Uncaught, initial_state 0)
   \<and> status_of (fst (post_data ''dev1'' JUndefined 1000 (initial_state 0))) = 500"
  by (simp add: isValidGpsData_def post_data_def)

text \<open>
  Claim C4. A \<^verbatim>\<open>GET /api/data/i\<close> for an id that never had a record should answer 200
  with the placeholder body (a message, latitude and longitude null). The code does so
  when the read \<^verbatim>\<open>deviceData[i]\<close> finds nothing (\<open>get_data_unknown\<close>). For the id
  \<^verbatim>\<open>constructor\<close>, which was never stored, the read finds the function inherited from
  \<^verbatim>\<open>Object.prototype\<close>; that is truthy, so the handler skips the placeholder and hands the
  function to \<^verbatim>\<open>res.json\<close>: the body has no latitude field at all.
\<close>

theorem get_data_constructor_not_placeholder:
  "own (deviceData (initial_state t0)) ''constructor'' = None
   \<and> get_data ''constructor'' (initial_state t0)
       = (Reply 200 (JBuiltin ''constructor''), initial_state t0)
   \<and> body_field (fst (get_data ''constructor'' (initial_state t0))) ''latitude'' = None
   \<and> body_field (fst (get_data ''constructor'' (initial_state t0))) ''message'' = None"
  by (simp add: get_data_def store_simps)

text \<open>
  Claim C6. A \<^verbatim>\<open>GET /api/command/i\<close> for an id with no stored command record should
  answer 200 with a record whose buzzer flag is false and leave both stores as they
  are. The code does so when the read \<^verbatim>\<open>commands[i]\<close> finds nothing
  (\<open>get_command_unknown\<close>). For the id \<^verbatim>\<open>constructor\<close> the stores are left as they are,
  but the value sent is the function inherited from \<^verbatim>\<open>Object.prototype\<close>, which has no
  buzzer flag: the default \<^verbatim>\<open>{ buzzer: false }\<close> is not used.
\<close>

theorem get_command_constructor_not_default:
  "own (commands (initial_state t0)) ''constructor'' = None
   \<and> get_command ''constructor'' t (initial_state t0)
       = (Reply 200 (JBuiltin ''constructor''), initial_state t0)
   \<and> body_field (fst (get_command ''constructor'' t (initial_state t0))) ''buzzer'' = None"
  by (simp add: get_command_def store_simps)

section \<open>Commands that were never issued\<close>

lemma unissued_get_command: "unissued (commands s) j \<Longrightarrow> snd (get_command j t s) = s"
  by (auto simp: unissued_def get_command_def Let_def js_get_def object_prototype_member_def)

lemma unissued_js_set:
  "j \<noteq> i \<Longrightarrow> unissued st i \<Longrightarrow> j \<noteq> ''__proto__'' \<or> own st j \<noteq> None \<Longrightarrow>
   unissued (js_set st j fs) i"
  by (auto simp: unissued_def js_set_def)

lemma unissued_get_command_other:
  assumes "unissued (commands s) i"
  shows "unissued (commands (snd (get_command j t s))) i"
proof (cases "own (commands s) j")
  case None
  with assms have "unissued (commands s) j" by (simp add: unissued_def)
  then show ?thesis using assms by (simp add: unissued_get_command)
next
  case (Some v)
  with assms have "j \<noteq> i" by (auto simp: unissued_def)
  with assms Some show ?thesis
    by (simp add: get_command_def Let_def unissued_js_set)
qed

lemma handle_keeps_unissued:
  assumes "r \<noteq> PostCommand i" and "r \<noteq> PostCommand ''__proto__''"
    and "unissued (commands s) i"
  shows "unissued (commands (snd (handle r t s))) i"
  using assms
  by (cases r)
     (auto simp: post_data_commands get_data_state post_command_def unissued_js_set
        unissued_get_command_other)

lemma run_keeps_unissued:
  "no_post_command i tr \<Longrightarrow> no_post_command ''__proto__'' tr \<Longrightarrow>
   unissued (commands s) i \<Longrightarrow> unissued (commands (run tr s)) i"
proof (induction tr arbitrary: s)
  case Nil
  then show ?case by simp
next
  case (Cons a tr)
  obtain r t where a: "a = (r, t)" by (cases a)
  from Cons.prems a have "r \<noteq> PostCommand i" "r \<noteq> PostCommand ''__proto__''"
    "no_post_command i tr" "no_post_command ''__proto__'' tr"
    by (simp_all add: no_post_command_def)
  with Cons.IH Cons.prems(3) a show ?case
    by (simp add: handle_keeps_unissued)
qed

lemma unissued_default:
  assumes "unissued (commands s) i" and "i \<noteq> ''__proto__''"
    and "i \<notin> set object_prototype_methods"
  shows "fst (get_command i t s) = Reply 200 (JObj [(''buzzer'', JBool False)])"
  using assms by (simp add: unissued_def get_command_absent js_get_unknown)

lemma initial_unissued: "unissued (commands (initial_state t0)) i"
  by (simp add: unissued_def initial_state_def empty_store_def)

section \<open>Field names of the response bodies\<close>

text \<open>
  Claim C7, as stated: the success body of \<^verbatim>\<open>GET /api/data/i\<close> exposes the server time
  under the name \<^verbatim>\<open>receivedAt\<close>. It does not: after the example report for \<^verbatim>\<open>dev1\<close> the
  JSON body of the read has no field of that name, and neither has the body for the
  seeded device.
\<close>

theorem telemetry_body_has_no_receivedAt:
  "status_of
     (fst (get_data ''dev1'' (snd (post_data ''dev1'' example_body 1000 (initial_state 0)))))
     = 200
   \<and> wire_field
       (fst (get_data ''dev1'' (snd (post_data ''dev1'' example_body 1000 (initial_state 0)))))
       ''receivedAt'' = None
   \<and> wire_field (fst (get_data DEFAULT_DEVICE_ID (initial_state 0))) ''receivedAt'' = None"
  by (simp add: example_body_def isValidGpsData_def post_data_def get_data_def store_simps
      stamp_def wire_field_obj)

text \<open>
  Claim C7, amended. A telemetry record exists for an id when a valid report was
  posted for it, or when it is the seeded device, and no later report for that id
  replaced it; any other requests may have been handled since. For every id other than
  \<^verbatim>\<open>__proto__\<close> the JSON body of \<^verbatim>\<open>GET /api/data/i\<close> then has status 200 and the fields
  latitude and longitude (always present) and rssi, each as \<^verbatim>\<open>JSON.stringify\<close> renders
  the posted value, and the clock reading of the report under the field name
  \<^verbatim>\<open>timestamp\<close>; it has a field \<^verbatim>\<open>receivedAt\<close> only when the posted body had one. For the
  seeded device the body is exactly its latitude, longitude, rssi and \<^verbatim>\<open>timestamp\<close>.
\<close>

theorem telemetry_body_shape:
  assumes "isValidGpsData data" and "i \<noteq> ''__proto__''" and "no_post_data i tr"
    and "no_post_data DEFAULT_DEVICE_ID tr'"
  shows "status_of (fst (get_data i (run tr (snd (post_data i data now s))))) = 200
       \<and> wire_field (fst (get_data i (run tr (snd (post_data i data now s))))) ''latitude''
           = to_json (field data ''latitude'')
       \<and> wire_field (fst (get_data i (run tr (snd (post_data i data now s))))) ''latitude''
           \<noteq> None
       \<and> wire_field (fst (get_data i (run tr (snd (post_data i data now s))))) ''longitude''
           = to_json (field data ''longitude'')
       \<and> wire_field (fst (get_data i (run tr (snd (post_data i data now s))))) ''longitude''
           \<noteq> None
       \<and> wire_field (fst (get_data i (run tr (snd (post_data i data now s))))) ''rssi''
           = to_json (field data ''rssi'')
       \<and> wire_field (fst (get_data i (run tr (snd (post_data i data now s))))) ''timestamp''
           = Some (stamp now)
       \<and> wire_field (fst (get_data i (run tr (snd (post_data i data now s))))) ''receivedAt''
           = Option.bind (map_of (own_props data) ''receivedAt'') to_json
       \<and> wire (fst (get_data DEFAULT_DEVICE_ID (run tr' (initial_state t0))))
           = Some (JObj [(''latitude'', JNum (Fin 14.5995)),
                         (''longitude'', JNum (Fin 120.9842)),
                         (''rssi'', JNum (Fin (- 90))), (''timestamp'', stamp t0)])"
proof -
  let ?r = "fst (get_data i (run tr (snd (post_data i data now s))))"
  from assms(1) obtain fs where d: "data = JObj fs" by (auto dest: valid_is_object)
  have r: "?r = Reply 200 (JObj (AList.update ''timestamp'' (stamp now) fs))"
    using get_after_post [OF assms(1,2,3), of now s] d by simp
  from assms(1) d
  have num: "is_number (field data ''latitude'')" "is_number (field data ''longitude'')"
    and present: "map_of fs ''latitude'' \<noteq> None" "map_of fs ''longitude'' \<noteq> None"
      "map_of fs ''rssi'' \<noteq> None"
    by (auto simp: isValidGpsData_def typeof_number split: option.splits)
  have seed: "wire (fst (get_data DEFAULT_DEVICE_ID (run tr' (initial_state t0))))
              = Some (JObj (seed_record t0))"
    using get_seed [OF assms(4), of t0] by (simp add: seed_record_def stamp_def)
  have st: "status_of ?r = 200" using r by simp
  have lat: "wire_field ?r ''latitude'' = to_json (field data ''latitude'')"
    using r d present(1) by (auto simp: wire_field_obj update_conv')
  have lon: "wire_field ?r ''longitude'' = to_json (field data ''longitude'')"
    using r d present(2) by (auto simp: wire_field_obj update_conv')
  have rssi: "wire_field ?r ''rssi'' = to_json (field data ''rssi'')"
    using r d present(3) by (auto simp: wire_field_obj update_conv')
  have ts: "wire_field ?r ''timestamp'' = Some (stamp now)"
    using r by (simp add: wire_field_obj update_conv' to_json_stamp)
  have ra: "wire_field ?r ''receivedAt''
            = Option.bind (map_of (own_props data) ''receivedAt'') to_json"
    using r d by (simp add: wire_field_obj update_conv')
  from st lat lon rssi ts ra seed to_json_number [OF num(1)] to_json_number [OF num(2)]
  show ?thesis by (simp add: seed_record_def)
qed

theorem telemetry_body_shape_witness:
  "isValidGpsData example_body \<and> ''dev1'' \<noteq> ''__proto__''
   \<and> no_post_data ''dev1''
       [(PostData ''dev2'' tagged_body, 2), (PostCommand ''dev1'', 3), (GetData ''dev1'', 4)]
   \<and> no_post_data DEFAULT_DEVICE_ID [(PostData ''dev1'' example_body, 5)]
   \<and> wire_field
       (fst (get_data ''dev1''
              (run [(PostData ''dev2'' tagged_body, 2), (PostCommand ''dev1'', 3),
                    (GetData ''dev1'', 4)]
                 (snd (post_data ''dev1'' example_body 1000 (initial_state 0))))))
       ''latitude'' = Some (JNum (Fin 14.6))
   \<and> wire_field
       (fst (get_data ''dev1''
              (run [(PostData ''dev2'' tagged_body, 2), (PostCommand ''dev1'', 3),
                    (GetData ''dev1'', 4)]
                 (snd (post_data ''dev1'' example_body 1000 (initial_state 0))))))
       ''timestamp'' = Some (JNum (Fin 1000))
   \<and> wire_field
       (fst (get_data DEFAULT_DEVICE_ID
              (run [(PostData ''dev1'' example_body, 5)] (initial_state 0))))
       ''timestamp'' = Some (JNum (Fin 0))"
proof -
  have a: "isValidGpsData example_body"
    by (simp add: example_body_def isValidGpsData_def)
  have b: "''dev1'' \<noteq> ''__proto__''" by simp
  have c: "no_post_data ''dev1''
       [(PostData ''dev2'' tagged_body, 2), (PostCommand ''dev1'', 3), (GetData ''dev1'', 4)]"
    by (simp add: no_post_data_def)
  have d: "no_post_data DEFAULT_DEVICE_ID [(PostData ''dev1'' example_body, 5)]"
    by (simp add: no_post_data_def DEFAULT_DEVICE_ID_def)
  from telemetry_body_shape [OF a b c d, of 1000 "initial_state 0" 0] a c d show ?thesis
    by (simp add: example_body_def stamp_def wire_field_def)
qed

text \<open>
  Claim C8, as stated: the body of \<^verbatim>\<open>GET /api/command/i\<close> exposes the flag under the
  name \<^verbatim>\<open>buzzerActive\<close> and the time under \<^verbatim>\<open>issuedAt\<close>. It does not: after a command for
  \<^verbatim>\<open>dev1\<close> the JSON body of the read is \<^verbatim>\<open>{buzzer: true, timestamp: 5}\<close> and has neither
  field.
\<close>

theorem command_body_has_no_buzzerActive:
  "wire (fst (get_command ''dev1'' 7 (snd (post_command ''dev1'' 5 (initial_state 0)))))
     = Some (JObj [(''buzzer'', JBool True), (''timestamp'', JNum (Fin 5))])
   \<and> wire_field (fst (get_command ''dev1'' 7 (snd (post_command ''dev1'' 5 (initial_state 0)))))
       ''buzzerActive'' = None
   \<and> wire_field (fst (get_command ''dev1'' 7 (snd (post_command ''dev1'' 5 (initial_state 0)))))
       ''issuedAt'' = None"
  by (simp add: get_command_def post_command_def store_simps stamp_def wire_field_def)

text \<open>
  Claim C8, amended. The JSON body of \<^verbatim>\<open>GET /api/command/i\<close> has the shape
  \<^verbatim>\<open>{buzzer, timestamp?}\<close>. While a command issued for \<open>i\<close> is pending it is exactly
  \<^verbatim>\<open>{buzzer: true, timestamp}\<close> with the clock reading of the issuance. Once that command
  was read, and until the next one is issued, it is exactly \<^verbatim>\<open>{buzzer: false, timestamp}\<close>
  with the clock reading of the read that reset it. For an id \<open>j\<close> for which no command
  was issued since the server started it is exactly \<^verbatim>\<open>{buzzer: false}\<close>, without a
  timestamp, provided \<open>j\<close> names nothing on \<^verbatim>\<open>Object.prototype\<close> and no command was issued
  for the id \<^verbatim>\<open>__proto__\<close>. Other requests may be handled in between.
\<close>

theorem command_body_shape:
  assumes "no_command i tr1" and "no_post_command i tr2"
    and "no_post_command j tr3" and "no_post_command ''__proto__'' tr3"
    and "j \<noteq> ''__proto__''" and "j \<notin> set object_prototype_methods"
  shows "wire (fst (get_command i t1 (run tr1 (snd (post_command i t0 s)))))
           = Some (JObj [(''buzzer'', JBool True), (''timestamp'', stamp t0)])
       \<and> wire (fst (get_command i t2
                      (run tr2 (snd (get_command i t1 (run tr1 (snd (post_command i t0 s))))))))
           = Some (JObj [(''buzzer'', JBool False), (''timestamp'', stamp t1)])
       \<and> wire (fst (get_command j t3 (run tr3 (initial_state t4))))
           = Some (JObj [(''buzzer'', JBool False)])"
proof -
  let ?s1 = "run tr1 (snd (post_command i t0 s))"
  let ?s2 = "snd (get_command i t1 ?s1)"
  let ?s3 = "run tr2 ?s2"
  have h1: "stores_record (commands ?s1) i (pending t0)"
    using assms(1) by (rule run_keeps_record) (rule post_command_stores)
  have on: "truthy (field (JObj (pending t0)) ''buzzer'')"
    by (simp add: pending_def)
  have r1: "fst (get_command i t1 ?s1) = Reply 200 (JObj (pending t0))"
    using h1 on by (rule get_command_pending(1))
  have h2: "stores_record (commands ?s2) i (cleared t1)"
    using h1 on by (rule get_command_pending(2))
  have off: "\<not> truthy (field (JObj (cleared t1)) ''buzzer'')"
    by (simp add: cleared_def)
  have h3: "stores_record (commands ?s3) i (cleared t1)"
    using assms(2) h2 off by (rule run_keeps_cleared)
  have r3: "get_command i t2 ?s3 = (Reply 200 (JObj (cleared t1)), ?s3)"
    using h3 off by (rule get_command_cleared)
  have u: "unissued (commands (run tr3 (initial_state t4))) j"
    using assms(3,4) initial_unissued by (rule run_keeps_unissued)
  have r4: "fst (get_command j t3 (run tr3 (initial_state t4)))
            = Reply 200 (JObj [(''buzzer'', JBool False)])"
    using u assms(5,6) by (rule unissued_default)
  show ?thesis
    using r1 r3 r4 by (simp add: pending_def cleared_def stamp_def)
qed

theorem command_body_shape_witness:
  "no_command ''dev1'' [(PostData ''dev1'' example_body, 2), (GetCommand ''dev2'', 3)]
   \<and> no_post_command ''dev1'' [(GetCommand ''dev1'', 5), (PostCommand ''dev2'', 6)]
   \<and> no_post_command ''dev3'' [(PostCommand ''dev1'', 1), (GetCommand ''dev3'', 2)]
   \<and> no_post_command ''__proto__'' [(PostCommand ''dev1'', 1), (GetCommand ''dev3'', 2)]
   \<and> ''dev3'' \<noteq> ''__proto__'' \<and> ''dev3'' \<notin> set object_prototype_methods
   \<and> wire (fst (get_command ''dev1'' 7
                  (run [(GetCommand ''dev1'', 5), (PostCommand ''dev2'', 6)]
                     (snd (get_command ''dev1'' 4
                            (run [(PostData ''dev1'' example_body, 2), (GetCommand ''dev2'', 3)]
                               (snd (post_command ''dev1'' 1 (initial_state 0)))))))))
       = Some (JObj [(''buzzer'', JBool False), (''timestamp'', JNum (Fin 4))])
   \<and> wire (fst (get_command ''dev3'' 3
                  (run [(PostCommand ''dev1'', 1), (GetCommand ''dev3'', 2)] (initial_state 0))))
       = Some (JObj [(''buzzer'', JBool False)])"
proof -
  have a: "no_command ''dev1'' [(PostData ''dev1'' example_body, 2), (GetCommand ''dev2'', 3)]"
    by (simp add: no_command_def)
  have b: "no_post_command ''dev1'' [(GetCommand ''dev1'', 5), (PostCommand ''dev2'', 6)]"
    by (simp add: no_post_command_def)
  have c: "no_post_command ''dev3'' [(PostCommand ''dev1'', 1), (GetCommand ''dev3'', 2)]"
    and d: "no_post_command ''__proto__'' [(PostCommand ''dev1'', 1), (GetCommand ''dev3'', 2)]"
    by (simp_all add: no_post_command_def)
  have e: "''dev3'' \<noteq> ''__proto__''" by simp
  have f: "''dev3'' \<notin> set object_prototype_methods"
    by (simp add: object_prototype_methods_def)
  from command_body_shape [OF a b c d e f, of 4 1 "initial_state 0" 7 3 0] a b c d f
  show ?thesis by (simp add: stamp_def)
qed

section \<open>Extra fields of a report\<close>

text \<open>
  Claim C10, as stated: every extra field of a valid body is kept and returned verbatim.
  An extra field named \<^verbatim>\<open>timestamp\<close> is not: the body posts the string \<^verbatim>\<open>x\<close> under that
  name and the JSON body of the read has the clock reading of the report there.
\<close>

theorem posted_timestamp_is_overwritten:
  "isValidGpsData restamped_body
   \<and> field restamped_body ''timestamp'' = JStr ''x''
   \<and> wire_field
       (fst (get_data ''dev1'' (snd (post_data ''dev1'' restamped_body 1000 (initial_state 0)))))
       ''timestamp'' = Some (JNum (Fin 1000))"
  by (simp add: restamped_body_def isValidGpsData_def post_data_def get_data_def store_simps
      stamp_def wire_field_obj)

text \<open>
  A number that overflowed to infinity in the parser passes validation and is stored,
  and goes out as \<^verbatim>\<open>null\<close>.
\<close>

lemma overflowed_latitude_comes_back_null:
  "isValidGpsData overflowed_body
   \<and> field (js_get (deviceData (snd (post_data ''dev1'' overflowed_body 1000 (initial_state 0))))
        ''dev1'') ''latitude'' = JNum PosInf
   \<and> wire_field
       (fst (get_data ''dev1'' (snd (post_data ''dev1'' overflowed_body 1000 (initial_state 0)))))
       ''latitude'' = Some JNull"
  by (simp add: overflowed_body_def isValidGpsData_def post_data_def get_data_def store_simps
      stamp_def wire_field_obj)

text \<open>
  Claim C10, amended. \<^verbatim>\<open>POST /api/data/i\<close> stores the whole body with the field
  \<^verbatim>\<open>timestamp\<close> set to the clock reading. For every id other than \<^verbatim>\<open>__proto__\<close>, every
  valid body and every field name other than \<^verbatim>\<open>timestamp\<close>, extra fields included: as
  long as no later report for that id replaced the record, whatever other requests were
  handled since, the stored record has under that name what the body has, and the JSON
  body of \<^verbatim>\<open>GET /api/data/i\<close> has the field exactly when the posted body had it, with the
  value as \<^verbatim>\<open>JSON.stringify\<close> renders it; that is the posted value itself when it is built
  from \<^verbatim>\<open>null\<close>, booleans, finite numbers and strings. The field \<^verbatim>\<open>timestamp\<close> of that body
  is the clock reading of the report.
\<close>

theorem extra_fields_kept:
  assumes "isValidGpsData data" and "i \<noteq> ''__proto__''" and "k \<noteq> ''timestamp''"
    and "no_post_data i tr"
  shows "field (js_get (deviceData (run tr (snd (post_data i data now s)))) i) k = field data k
       \<and> wire_field (fst (get_data i (run tr (snd (post_data i data now s))))) k
           = Option.bind (map_of (own_props data) k) to_json
       \<and> (plain (field data k) \<longrightarrow>
            wire_field (fst (get_data i (run tr (snd (post_data i data now s))))) k
              = Some (field data k))
       \<and> wire_field (fst (get_data i (run tr (snd (post_data i data now s))))) ''timestamp''
           = Some (stamp now)"
proof -
  let ?s = "run tr (snd (post_data i data now s))"
  let ?r = "fst (get_data i ?s)"
  from assms(1) obtain fs where d: "data = JObj fs" by (auto dest: valid_is_object)
  have h: "stores_record (deviceData ?s) i (AList.update ''timestamp'' (stamp now) fs)"
    using run_keeps_telemetry [OF assms(4) post_data_stores [OF assms(1,2)], of now s] d
    by simp
  have stored: "field (js_get (deviceData ?s) i) k = field data k"
    using stores_record_get [OF h] d assms(3) by (simp add: update_conv')
  have r: "?r = Reply 200 (JObj (AList.update ''timestamp'' (stamp now) fs))"
    using get_data_stored [OF h] by simp
  have w: "wire_field ?r k = Option.bind (map_of (own_props data) k) to_json"
    using r d assms(3) by (simp add: wire_field_obj update_conv')
  have p: "plain (field data k) \<longrightarrow> wire_field ?r k = Some (field data k)"
    using w d plain_to_json(1) [of "field data k"]
    by (cases "map_of fs k") auto
  have ts: "wire_field ?r ''timestamp'' = Some (stamp now)"
    using r by (simp add: wire_field_obj update_conv' to_json_stamp)
  from stored w p ts show ?thesis by blast
qed

theorem extra_fields_kept_witness:
  "isValidGpsData tagged_body \<and> ''dev1'' \<noteq> ''__proto__'' \<and> ''battery'' \<noteq> ''timestamp''
   \<and> no_post_data ''dev1'' [(PostData ''dev2'' example_body, 2), (PostCommand ''dev1'', 3)]
   \<and> plain (field tagged_body ''battery'')
   \<and> wire_field
       (fst (get_data ''dev1''
              (run [(PostData ''dev2'' example_body, 2), (PostCommand ''dev1'', 3)]
                 (snd (post_data ''dev1'' tagged_body 1000 (initial_state 0))))))
       ''battery'' = Some (JNum (Fin 87))"
proof -
  have a: "isValidGpsData tagged_body"
    by (simp add: tagged_body_def isValidGpsData_def)
  have b: "''dev1'' \<noteq> ''__proto__''" and c: "''battery'' \<noteq> ''timestamp''"
    by simp_all
  have d: "no_post_data ''dev1'' [(PostData ''dev2'' example_body, 2), (PostCommand ''dev1'', 3)]"
    by (simp add: no_post_data_def)
  have e: "plain (field tagged_body ''battery'')"
    by (simp add: tagged_body_def)
  from extra_fields_kept [OF a b c d, of 1000 "initial_state 0"] a d e show ?thesis
    by (simp add: tagged_body_def)
qed

end
